theory Spec2Isabelle
  imports Complex_Main
begin

section \<open>JavaScript values that reach the server\<close>

text \<open>
  \<open>server.js\<close> is dynamically typed, so the values it receives are modelled first.
  A JavaScript number is an IEEE double: \<open>NaN\<close>, the two infinities, or a finite value.
  The server never does arithmetic on numbers (it only converts, tests truthiness, compares
  with \<open>0\<close> and takes \<open>Math.max\<close>), so a finite double is represented by its exact
  rational value. \<open>-0\<close> is identified with \<open>0\<close>: both are falsy, neither is \<open>> 0\<close>, and
  \<open>Math.max(0, -0)\<close> is \<open>0\<close>.
\<close>

datatype jsnum = NaN | NegInf | PosInf | Fin rat

text \<open>What \<open>express.json()\<close> (\<open>JSON.parse\<close>) can put into \<open>req.body\<close>.\<close>

datatype json =
    JNull
  | JBool bool
  | JNum jsnum
  | JStr string
  | JArr "json list"
  | JObj "(string \<times> json) list"

text \<open>
  The two conversions between strings and numbers are algorithms of the JavaScript engine
  (ECMAScript \<open>StringToNumber\<close> and \<open>Number::toString\<close>), not code of this repository.
  They are a parameter of the model.
\<close>

record engine =
  StringToNumber :: "string \<Rightarrow> jsnum"
  NumberToString :: "jsnum \<Rightarrow> string"

subsection \<open>Truthiness, comparison, \<open>Math.max\<close>\<close>

text \<open>A number is falsy when it is \<open>NaN\<close> or zero.\<close>

definition truthy_num :: "jsnum \<Rightarrow> bool" where
  "truthy_num n = (n \<noteq> NaN \<and> n \<noteq> Fin 0)"

text \<open>\<open>n || d\<close> on numbers.\<close>

definition or_num :: "jsnum \<Rightarrow> jsnum \<Rightarrow> jsnum" where
  "or_num n d = (if truthy_num n then n else d)"

fun truthy :: "json \<Rightarrow> bool" where
  "truthy JNull = False"
| "truthy (JBool b) = b"
| "truthy (JNum n) = truthy_num n"
| "truthy (JStr s) = (s \<noteq> [])"
| "truthy (JArr xs) = True"
| "truthy (JObj kvs) = True"

text \<open>A property read from the body is \<open>undefined\<close> (\<open>None\<close>) when the key is absent.\<close>

fun truthy_prop :: "json option \<Rightarrow> bool" where
  "truthy_prop None = False"
| "truthy_prop (Some v) = truthy v"

text \<open>\<open>v != null\<close>: false exactly for \<open>undefined\<close> and \<open>null\<close>.\<close>

fun not_nullish :: "json option \<Rightarrow> bool" where
  "not_nullish None = False"
| "not_nullish (Some JNull) = False"
| "not_nullish (Some v) = True"

text \<open>\<open>a > b\<close> on numbers; every comparison with \<open>NaN\<close> is false.\<close>

fun js_gt :: "jsnum \<Rightarrow> jsnum \<Rightarrow> bool" where
  "js_gt NaN b = False"
| "js_gt a NaN = False"
| "js_gt NegInf b = False"
| "js_gt a NegInf = True"
| "js_gt PosInf PosInf = False"
| "js_gt PosInf (Fin y) = True"
| "js_gt (Fin x) PosInf = False"
| "js_gt (Fin x) (Fin y) = (y < x)"

definition js_ge :: "jsnum \<Rightarrow> jsnum \<Rightarrow> bool" where
  "js_ge a b = (a \<noteq> NaN \<and> b \<noteq> NaN \<and> (js_gt a b \<or> a = b))"

text \<open>\<open>Math.max(a, b)\<close>: \<open>NaN\<close> when an argument is \<open>NaN\<close>, else the larger one.\<close>

definition Math_max :: "jsnum \<Rightarrow> jsnum \<Rightarrow> jsnum" where
  "Math_max a b = (if a = NaN \<or> b = NaN then NaN else if js_gt b a then b else a)"

subsection \<open>\<open>String(v)\<close> and \<open>Number(v)\<close>\<close>

text \<open>
  \<open>Array.prototype.join\<close> with the separator \<open>,\<close>, over the converted elements.
  \<open>None\<close> stands for a thrown \<open>TypeError\<close>.
\<close>

fun join :: "string option list \<Rightarrow> string option" where
  "join [] = Some []"
| "join [x] = x"
| "join (x # y # ys) =
     (case x of None \<Rightarrow> None
      | Some s \<Rightarrow> (case join (y # ys) of None \<Rightarrow> None | Some t \<Rightarrow> Some (s @ '','' @ t)))"

text \<open>
  \<open>String(v)\<close>. An array is joined, with \<open>null\<close> elements rendered as the empty string.
  An object parsed from JSON has no callable property of its own, so an object with a key
  \<open>toString\<close> hides \<open>Object.prototype.toString\<close> and the conversion throws a
  \<open>TypeError\<close> (\<open>None\<close>); any other object is \<open>[object Object]\<close>.
\<close>

fun ToString :: "engine \<Rightarrow> json \<Rightarrow> string option" where
  "ToString e JNull = Some ''null''"
| "ToString e (JBool b) = Some (if b then ''true'' else ''false'')"
| "ToString e (JNum n) = Some (NumberToString e n)"
| "ToString e (JStr s) = Some s"
| "ToString e (JArr xs) =
     join (map (\<lambda>x. if x = JNull then Some [] else ToString e x) xs)"
| "ToString e (JObj kvs) =
     (if ''toString'' \<in> set (map fst kvs) then None else Some ''[object Object]'')"

text \<open>\<open>Number(v)\<close>. Arrays and objects are first converted to a string.\<close>

fun ToNumber :: "engine \<Rightarrow> json \<Rightarrow> jsnum option" where
  "ToNumber e JNull = Some (Fin 0)"
| "ToNumber e (JBool b) = Some (Fin (if b then 1 else 0))"
| "ToNumber e (JNum n) = Some n"
| "ToNumber e (JStr s) = Some (StringToNumber e s)"
| "ToNumber e (JArr xs) = map_option (StringToNumber e) (ToString e (JArr xs))"
| "ToNumber e (JObj kvs) = map_option (StringToNumber e) (ToString e (JObj kvs))"

section \<open>The server's state\<close>

subsection \<open>Behavior (chaos) state\<close>

text \<open>
  The module-level object \<open>behavior\<close>. Its fields only ever hold a string (\<open>mode\<close>,
  \<open>errorMessage\<close>) or a number (\<open>errorCode\<close>, \<open>delayMs\<close>): they start so in
  \<open>DEFAULT_BEHAVIOR\<close> and every assignment in \<open>POST /api/behavior\<close> stores a value of
  that type.
\<close>

record Behavior =
  mode :: string
  errorCode :: jsnum
  errorMessage :: string
  delayMs :: jsnum

definition DEFAULT_BEHAVIOR :: Behavior where
  "DEFAULT_BEHAVIOR =
     \<lparr>mode = ''normal'', errorCode = Fin 500, errorMessage = [], delayMs = Fin 0\<rparr>"

subsection \<open>Request log (newest first)\<close>

record LogEntry =
  entryId :: string
  time :: string
  entryMethod :: string
  path :: string
  fileName :: "string option"
  fileSize :: "jsnum option"
  hasAuth :: bool
  responseStatus :: jsnum
  entryNote :: "string option"
  chaosMode :: string

definition MAX_LOG :: nat where
  "MAX_LOG = 200"

record state =
  behavior :: Behavior
  receivedLog :: "LogEntry list"

text \<open>The state when the module has been loaded.\<close>

definition initial :: state where
  "initial = \<lparr>behavior = DEFAULT_BEHAVIOR, receivedLog = []\<rparr>"

subsection \<open>Requests and responses\<close>

text \<open>
  The file object that multer attaches; a property that is \<open>undefined\<close> is \<open>None\<close>.
\<close>

record upload_file =
  originalname :: "string option"
  name :: "string option"
  file_size :: "jsnum option"

text \<open>
  The parts of an upload request that the server reads: \<open>req.method\<close>, \<open>req.path\<close>,
  \<open>req.file\<close>, \<open>req.files?.pdf\<close> and \<open>req.headers.authorization\<close>.
  (\<open>upload.single('pdf')\<close> sets \<open>req.file\<close> only.)
\<close>

record request =
  req_method :: string
  req_path :: string
  req_file :: "upload_file option"
  req_files_pdf :: "upload_file option"
  req_authorization :: "string option"

text \<open>
  What \<open>Date.now()\<close>, \<open>Math.random()\<close> and \<open>new Date()\<close> contribute to a log entry
  at the moment it is written: the id and the ISO time.
\<close>

record stamp =
  stamp_id :: string
  stamp_time :: string

text \<open>
  The JSON body of \<open>POST /api/behavior\<close> (\<open>b = req.body\<close>), as the four properties the
  handler reads from it: \<open>None\<close> for an absent key, \<open>Some JNull\<close> for \<open>null\<close>.
\<close>

record req_body =
  b_mode :: "json option"
  b_errorCode :: "json option"
  b_errorMessage :: "json option"
  b_delayMs :: "json option"

text \<open>
  A response is the status and the JSON value that the handler passes to
  \<open>res.status(...)\<close> and \<open>res.json(...)\<close>. A handler can also return without
  responding (\<open>Hang\<close>) or end by a thrown exception (\<open>Thrown\<close>): a \<open>TypeError\<close> of
  a conversion, or the error with which the HTTP layer refuses a status. A status that
  carries no body goes out alone (\<open>SentNoBody\<close>).
\<close>

record response =
  status :: jsnum
  body :: json

datatype outcome = Sent response | SentNoBody jsnum | Hang | Thrown

section \<open>Request recorder\<close>

text \<open>\<open>a || b\<close> where \<open>a\<close> is a string or \<open>undefined\<close>.\<close>

definition or_str :: "string option \<Rightarrow> string option \<Rightarrow> string option" where
  "or_str a b = (case a of None \<Rightarrow> b | Some s \<Rightarrow> if s \<noteq> [] then Some s else b)"

text \<open>\<open>f?.originalname || f?.name || null\<close>; \<open>None\<close> in the result is \<open>null\<close>.\<close>

definition file_label :: "upload_file option \<Rightarrow> string option" where
  "file_label f =
     or_str (case f of None \<Rightarrow> None | Some u \<Rightarrow> originalname u)
            (or_str (case f of None \<Rightarrow> None | Some u \<Rightarrow> name u) None)"

text \<open>The object literal that \<open>logReceived\<close> puts into the log.\<close>

definition new_entry :: "stamp \<Rightarrow> request \<Rightarrow> jsnum \<Rightarrow> string option \<Rightarrow> state \<Rightarrow> LogEntry" where
  "new_entry t req rs nt st =
     (let file = (case req_file req of Some f \<Rightarrow> Some f | None \<Rightarrow> req_files_pdf req)
      in \<lparr>entryId = stamp_id t,
          time = stamp_time t,
          entryMethod = req_method req,
          path = req_path req,
          fileName = file_label file,
          fileSize = (case file of None \<Rightarrow> None | Some u \<Rightarrow> file_size u),
          hasAuth = (case req_authorization req of None \<Rightarrow> False | Some a \<Rightarrow> a \<noteq> []),
          responseStatus = rs,
          entryNote = or_str nt None,
          chaosMode = mode (behavior st)\<rparr>)"

text \<open>\<open>unshift\<close>, then one \<open>pop\<close> when the length exceeds \<open>MAX_LOG\<close>.\<close>

definition logReceived :: "stamp \<Rightarrow> request \<Rightarrow> jsnum \<Rightarrow> string option \<Rightarrow> state \<Rightarrow> state" where
  "logReceived t req rs nt st =
     (let unshifted = new_entry t req rs nt st # receivedLog st
      in st\<lparr>receivedLog :=
              (if length unshifted > MAX_LOG then butlast unshifted else unshifted)\<rparr>)"

section \<open>Behavior API\<close>

definition behavior_json :: "Behavior \<Rightarrow> json" where
  "behavior_json b =
     JObj [(''mode'', JStr (mode b)), (''errorCode'', JNum (errorCode b)),
           (''errorMessage'', JStr (errorMessage b)), (''delayMs'', JNum (delayMs b))]"

text \<open>\<open>GET /api/behavior\<close>\<close>

definition get_api_behavior :: "state \<Rightarrow> state \<times> outcome" where
  "get_api_behavior st = (st, Sent \<lparr>status = Fin 200, body = behavior_json (behavior st)\<rparr>)"

text \<open>\<open>['normal', 'error', 'timeout'].includes(v)\<close>: only a string can be a member.\<close>

fun array_includes :: "string list \<Rightarrow> json option \<Rightarrow> bool" where
  "array_includes xs (Some (JStr s)) = (s \<in> set xs)"
| "array_includes xs v = False"

definition rejected :: "req_body \<Rightarrow> bool" where
  "rejected b =
     (truthy_prop (b_mode b) \<and> \<not> array_includes [''normal'', ''error'', ''timeout''] (b_mode b))"

text \<open>
  The four conditional assignments, in the order of the source. The first cannot throw.
  In each of the others the conversion runs before the assignment, so a \<open>TypeError\<close>
  (\<open>None\<close>) leaves that field as it was. A truthy \<open>b.mode\<close> that is not a string never
  reaches \<open>assign_mode\<close>: the handler has returned 400 before.
\<close>

definition assign_mode :: "req_body \<Rightarrow> Behavior \<Rightarrow> Behavior" where
  "assign_mode b beh =
     (case b_mode b of
        Some (JStr s) \<Rightarrow> if truthy (JStr s) then beh\<lparr>mode := s\<rparr> else beh
      | _ \<Rightarrow> beh)"

definition assign_errorCode :: "engine \<Rightarrow> req_body \<Rightarrow> Behavior \<Rightarrow> Behavior option" where
  "assign_errorCode e b beh =
     (if not_nullish (b_errorCode b)
      then map_option (\<lambda>n. beh\<lparr>errorCode := or_num n (Fin 500)\<rparr>)
             (ToNumber e (the (b_errorCode b)))
      else Some beh)"

definition assign_errorMessage :: "engine \<Rightarrow> req_body \<Rightarrow> Behavior \<Rightarrow> Behavior option" where
  "assign_errorMessage e b beh =
     (if not_nullish (b_errorMessage b)
      then map_option (\<lambda>s. beh\<lparr>errorMessage := s\<rparr>) (ToString e (the (b_errorMessage b)))
      else Some beh)"

definition assign_delayMs :: "engine \<Rightarrow> req_body \<Rightarrow> Behavior \<Rightarrow> Behavior option" where
  "assign_delayMs e b beh =
     (if not_nullish (b_delayMs b)
      then map_option (\<lambda>n. beh\<lparr>delayMs := Math_max (Fin 0) (or_num n (Fin 0))\<rparr>)
             (ToNumber e (the (b_delayMs b)))
      else Some beh)"

text \<open>\<open>POST /api/behavior\<close>\<close>

definition post_api_behavior :: "engine \<Rightarrow> req_body \<Rightarrow> state \<Rightarrow> state \<times> outcome" where
  "post_api_behavior e b st =
     (if rejected b
      then (st, Sent \<lparr>status = Fin 400,
                      body = JObj [(''error'', JStr ''mode must be normal, error, or timeout'')]\<rparr>)
      else
        let b1 = assign_mode b (behavior st) in
        case assign_errorCode e b b1 of
          None \<Rightarrow> (st\<lparr>behavior := b1\<rparr>, Thrown)
        | Some b2 \<Rightarrow>
           (case assign_errorMessage e b b2 of
              None \<Rightarrow> (st\<lparr>behavior := b2\<rparr>, Thrown)
            | Some b3 \<Rightarrow>
               (case assign_delayMs e b b3 of
                  None \<Rightarrow> (st\<lparr>behavior := b3\<rparr>, Thrown)
                | Some b4 \<Rightarrow>
                    (st\<lparr>behavior := b4\<rparr>,
                     Sent \<lparr>status = Fin 200, body = behavior_json b4\<rparr>))))"

text \<open>\<open>POST /api/behavior/reset\<close>\<close>

definition post_api_behavior_reset :: "state \<Rightarrow> state \<times> outcome" where
  "post_api_behavior_reset st =
     (let st' = st\<lparr>behavior := DEFAULT_BEHAVIOR\<rparr>
      in (st', Sent \<lparr>status = Fin 200, body = behavior_json (behavior st')\<rparr>))"

text \<open>\<open>POST /api/inbox/clear\<close>\<close>

definition post_api_inbox_clear :: "state \<Rightarrow> state \<times> outcome" where
  "post_api_inbox_clear st =
     (st\<lparr>receivedLog := []\<rparr>, Sent \<lparr>status = Fin 200, body = JObj [(''ok'', JBool True)]\<rparr>)"

section \<open>Upload handler\<close>

text \<open>
  The object \<open>ERROR_MESSAGES\<close>, read with a number as key. The property key of a number
  is its canonical string, so the lookup finds a phrase at exactly these ten numbers.
\<close>

definition ERROR_MESSAGES :: "jsnum \<Rightarrow> string option" where
  "ERROR_MESSAGES =
     map_of [(Fin 400, ''Bad Request''),
             (Fin 401, ''Unauthorized''),
             (Fin 403, ''Forbidden''),
             (Fin 404, ''Not Found''),
             (Fin 408, ''Request Timeout''),
             (Fin 429, ''Too Many Requests''),
             (Fin 500, ''Internal Server Error''),
             (Fin 502, ''Bad Gateway''),
             (Fin 503, ''Service Unavailable''),
             (Fin 504, ''Gateway Timeout'')]"

text \<open>
  \<open>res.status(code).json(payload)\<close> with a status that comes from the Behavior. The
  store accepts every non-zero number as \<open>errorCode\<close>, but Express and Node send only
  an integer from 100 to 999 and throw on any other status. Of the statuses they send,
  1xx, 204, 205 and 304 go out without the body. (The other responses of the server have
  the fixed status 200 or 400, which is sent with its body.)
\<close>

definition valid_status :: "jsnum \<Rightarrow> bool" where
  "valid_status c =
     (case c of Fin r \<Rightarrow> r = of_int \<lfloor>r\<rfloor> \<and> 100 \<le> r \<and> r \<le> 999 | _ \<Rightarrow> False)"

definition status_with_body :: "jsnum \<Rightarrow> bool" where
  "status_with_body c =
     (case c of Fin r \<Rightarrow> 200 \<le> r \<and> r \<noteq> 204 \<and> r \<noteq> 205 \<and> r \<noteq> 304 | _ \<Rightarrow> False)"

definition res_status_json :: "jsnum \<Rightarrow> json \<Rightarrow> outcome" where
  "res_status_json code payload =
     (if \<not> valid_status code then Thrown
      else if status_with_body code then Sent \<lparr>status = code, body = payload\<rparr>
      else SentNoBody code)"

text \<open>
  \<open>a || b || c\<close> on strings goes on to the next operand when the value so far is
  \<open>undefined\<close> or the empty string; \<open>or_str x None\<close> is \<open>None\<close> exactly when \<open>x\<close>
  is falsy.

  \<open>handle\<close> is an \<open>async\<close> function with one \<open>await\<close>. What follows the \<open>await\<close> runs
  in one turn of the event loop, on the state that is current in that turn.
\<close>

definition handle_after_delay :: "engine \<Rightarrow> stamp \<Rightarrow> request \<Rightarrow> state \<Rightarrow> state \<times> outcome" where
  "handle_after_delay e t req st =
     (if mode (behavior st) = ''timeout''
      then (logReceived t req (Fin 0) (Some ''timeout (no response sent)'') st, Hang)
      else if mode (behavior st) = ''error''
      then
        (let code = or_num (errorCode (behavior st)) (Fin 500);
             msg = (case or_str (Some (errorMessage (behavior st)))
                                (or_str (ERROR_MESSAGES code) None) of
                      Some m \<Rightarrow> m
                    | None \<Rightarrow> ''Error '' @ NumberToString e code)
         in (logReceived t req code (Some (''chaos: '' @ msg)) st,
             res_status_json code (JObj [(''error'', JStr msg)])))
      else
        (logReceived t req (Fin 200) None st,
         Sent \<lparr>status = Fin 200,
               body = JObj [(''ok'', JBool True),
                            (''message'', JStr ''PDF received''),
                            (''filename'',
                               (case file_label (req_file req) of
                                  None \<Rightarrow> JNull
                                | Some n \<Rightarrow> JStr n))]\<rparr>))"

text \<open>
  One turn of the event loop that may run while an upload waits in \<open>await delay(...)\<close>:
  a control request, or the part after the delay of another upload.
\<close>

datatype event =
    PostBehavior req_body
  | PostBehaviorReset
  | PostInboxClear
  | UploadTurn stamp request

fun run_event :: "engine \<Rightarrow> state \<Rightarrow> event \<Rightarrow> state" where
  "run_event e st (PostBehavior b) = fst (post_api_behavior e b st)"
| "run_event e st PostBehaviorReset = fst (post_api_behavior_reset st)"
| "run_event e st PostInboxClear = fst (post_api_inbox_clear st)"
| "run_event e st (UploadTurn t req) = fst (handle_after_delay e t req st)"

text \<open>
  \<open>handle\<close>: \<open>behavior.delayMs\<close> is read on arrival; when it is positive the handler
  waits, and the turns \<open>during\<close> run before it goes on. With no delay the handler runs
  to its end in the turn in which it started.
\<close>

definition handle :: "engine \<Rightarrow> event list \<Rightarrow> stamp \<Rightarrow> request \<Rightarrow> state \<Rightarrow> state \<times> outcome" where
  "handle e during t req st =
     (if js_gt (delayMs (behavior st)) (Fin 0)
      then handle_after_delay e t req (foldl (run_event e) st during)
      else handle_after_delay e t req st)"

text \<open>The states the server can be in: the initial one, and any state after one more turn.\<close>

inductive reachable :: "engine \<Rightarrow> state \<Rightarrow> bool" for e :: engine where
  start: "reachable e initial"
| turn: "reachable e st \<Longrightarrow> reachable e (run_event e st ev)"

section \<open>An engine for the examples\<close>

text \<open>
  To evaluate examples the engine's two conversions are instantiated on the fragment the
  examples use: a string of decimal digits is its value (the empty string is \<open>0\<close>), a
  string with another character is \<open>NaN\<close>, and an integer is printed in decimal. The
  examples convert no string with a sign, a point, an exponent, a prefix or blanks, and
  print no number that is not an integer (it would come out as the empty string).
\<close>

fun digits :: "nat \<Rightarrow> string" where
  "digits n =
     (if n < 10 then [''0123456789'' ! n]
      else digits (n div 10) @ [''0123456789'' ! (n mod 10)])"

fun digits_value :: "nat \<Rightarrow> string \<Rightarrow> nat option" where
  "digits_value acc [] = Some acc"
| "digits_value acc (c # cs) =
     (case map_of [(CHR ''0'', 0), (CHR ''1'', 1), (CHR ''2'', 2), (CHR ''3'', 3),
                   (CHR ''4'', 4), (CHR ''5'', 5), (CHR ''6'', 6), (CHR ''7'', 7),
                   (CHR ''8'', 8), (CHR ''9'', 9)] c of
        None \<Rightarrow> None
      | Some d \<Rightarrow> digits_value (10 * acc + d) cs)"

definition decimal_of_string :: "string \<Rightarrow> jsnum" where
  "decimal_of_string s = (case digits_value 0 s of None \<Rightarrow> NaN | Some n \<Rightarrow> Fin (of_nat n))"

fun string_of_number :: "jsnum \<Rightarrow> string" where
  "string_of_number NaN = ''NaN''"
| "string_of_number NegInf = ''-Infinity''"
| "string_of_number PosInf = ''Infinity''"
| "string_of_number (Fin r) =
     (if r = of_int \<lfloor>r\<rfloor>
      then (if r < 0 then ''-'' @ digits (nat (- \<lfloor>r\<rfloor>)) else digits (nat \<lfloor>r\<rfloor>))
      else [])"

definition decimal_engine :: engine where
  "decimal_engine = \<lparr>StringToNumber = decimal_of_string, NumberToString = string_of_number\<rparr>"

section \<open>Notions used in the properties\<close>

text \<open>The state on which the part of \<open>handle\<close> after the \<open>await\<close> runs.\<close>

definition at_resume :: "engine \<Rightarrow> event list \<Rightarrow> state \<Rightarrow> state" where
  "at_resume e during st =
     (if js_gt (delayMs (behavior st)) (Fin 0) then foldl (run_event e) st during else st)"

text \<open>The invariant of the Behavior Store: an enumerated mode and a non-negative delay.\<close>

definition valid_behavior :: "Behavior \<Rightarrow> bool" where
  "valid_behavior b =
     (mode b \<in> set [''normal'', ''error'', ''timeout''] \<and> js_ge (delayMs b) (Fin 0))"

text \<open>What holds of every state the server reaches.\<close>

definition wf_state :: "state \<Rightarrow> bool" where
  "wf_state st =
     (valid_behavior (behavior st) \<and> truthy_num (errorCode (behavior st))
      \<and> length (receivedLog st) \<le> MAX_LOG)"

text \<open>
  The effective message of Error mode in the words of the specification: the explicit
  \<open>errorMessage\<close> if set, else the phrase of the fixed table, else \<open>Error <code>\<close>.
\<close>

definition spec_effective_message :: "engine \<Rightarrow> Behavior \<Rightarrow> string" where
  "spec_effective_message e b =
     (if errorMessage b \<noteq> [] then errorMessage b
      else (case ERROR_MESSAGES (errorCode b) of
              Some phrase \<Rightarrow> phrase
            | None \<Rightarrow> ''Error '' @ NumberToString e (errorCode b)))"

text \<open>A \<open>POST /api/behavior\<close> call that ran to its end and answered with the snapshot.\<close>

definition accepted :: "state \<times> outcome \<Rightarrow> bool" where
  "accepted r =
     (case snd r of
        Sent res \<Rightarrow> res = \<lparr>status = Fin 200, body = behavior_json (behavior (fst r))\<rparr>
      | _ \<Rightarrow> False)"

text \<open>A sequence of record operations, first call first.\<close>

fun record_all :: "(stamp \<times> request \<times> jsnum \<times> string option) list \<Rightarrow> state \<Rightarrow> state" where
  "record_all [] st = st"
| "record_all ((t, req, rs, nt) # calls) st = record_all calls (logReceived t req rs nt st)"

text \<open>The body \<open>{}\<close>, an upload of \<open>report.pdf\<close>, and the stamp of the \<open>i\<close>-th call.\<close>

definition empty_body :: req_body where
  "empty_body = \<lparr>b_mode = None, b_errorCode = None, b_errorMessage = None, b_delayMs = None\<rparr>"

definition pdf_upload :: request where
  "pdf_upload =
     \<lparr>req_method = ''POST'', req_path = ''/upload'',
      req_file = Some \<lparr>originalname = Some ''report.pdf'', name = None,
                       file_size = Some (Fin 1024)\<rparr>,
      req_files_pdf = None, req_authorization = Some ''Basic dG9rZW46''\<rparr>"

definition bare_upload :: request where
  "bare_upload =
     \<lparr>req_method = ''POST'', req_path = ''/upload'', req_file = None,
      req_files_pdf = None, req_authorization = None\<rparr>"

definition stamp_no :: "nat \<Rightarrow> stamp" where
  "stamp_no i = \<lparr>stamp_id = ''id'' @ digits i, stamp_time = ''t'' @ digits i\<rparr>"

section \<open>Basic facts\<close>

subsection \<open>The recorder\<close>

lemma receivedLog_logReceived:
  "receivedLog (logReceived t req rs nt st) =
     new_entry t req rs nt st #
       (if MAX_LOG \<le> length (receivedLog st) then butlast (receivedLog st) else receivedLog st)"
  by (cases "receivedLog st = []") (auto simp: logReceived_def Let_def MAX_LOG_def)

lemma behavior_logReceived [simp]: "behavior (logReceived t req rs nt st) = behavior st"
  by (simp add: logReceived_def Let_def)

lemma take_logReceived:
  "length (receivedLog st) \<le> MAX_LOG \<Longrightarrow>
   receivedLog (logReceived t req rs nt st) = take MAX_LOG (new_entry t req rs nt st # receivedLog st)"
  by (cases "receivedLog st" rule: rev_cases) (auto simp: receivedLog_logReceived MAX_LOG_def)

lemma length_logReceived:
  "length (receivedLog st) \<le> MAX_LOG \<Longrightarrow> length (receivedLog (logReceived t req rs nt st)) \<le> MAX_LOG"
  by (auto simp: receivedLog_logReceived MAX_LOG_def)

lemma wf_logReceived: "wf_state st \<Longrightarrow> wf_state (logReceived t req rs nt st)"
  by (simp add: wf_state_def length_logReceived)

lemma truthy_or_num_500: "truthy_num (or_num n (Fin 500))"
  by (simp add: or_num_def truthy_num_def)

lemma clamp_nonneg: "js_ge (Math_max (Fin 0) (or_num n (Fin 0))) (Fin 0)"
  by (cases n) (auto simp: Math_max_def or_num_def truthy_num_def js_ge_def)

lemma assign_mode_valid:
  "\<not> rejected b \<Longrightarrow> mode beh \<in> set [''normal'', ''error'', ''timeout''] \<Longrightarrow>
   mode (assign_mode b beh) \<in> set [''normal'', ''error'', ''timeout'']"
  by (auto simp: rejected_def assign_mode_def split: option.splits json.splits)

lemma assign_mode_others [simp]:
  "errorCode (assign_mode b beh) = errorCode beh"
  "errorMessage (assign_mode b beh) = errorMessage beh"
  "delayMs (assign_mode b beh) = delayMs beh"
  by (auto simp: assign_mode_def split: option.splits json.splits)

lemma assign_errorCode_Some:
  "assign_errorCode e b beh = Some beh' \<Longrightarrow>
   mode beh' = mode beh \<and> errorMessage beh' = errorMessage beh \<and> delayMs beh' = delayMs beh
   \<and> (truthy_num (errorCode beh) \<longrightarrow> truthy_num (errorCode beh'))"
  by (auto simp: assign_errorCode_def truthy_or_num_500 split: if_splits)

lemma assign_errorMessage_Some:
  "assign_errorMessage e b beh = Some beh' \<Longrightarrow>
   mode beh' = mode beh \<and> errorCode beh' = errorCode beh \<and> delayMs beh' = delayMs beh"
  by (auto simp: assign_errorMessage_def split: if_splits)

lemma assign_delayMs_Some:
  "assign_delayMs e b beh = Some beh' \<Longrightarrow>
   mode beh' = mode beh \<and> errorCode beh' = errorCode beh \<and> errorMessage beh' = errorMessage beh
   \<and> (js_ge (delayMs beh) (Fin 0) \<longrightarrow> js_ge (delayMs beh') (Fin 0))"
  by (auto simp: assign_delayMs_def clamp_nonneg split: if_splits)

lemma receivedLog_post_api_behavior [simp]:
  "receivedLog (fst (post_api_behavior e b st)) = receivedLog st"
  by (simp add: post_api_behavior_def Let_def split: option.splits)

lemma wf_post_api_behavior:
  assumes "wf_state st"
  shows "wf_state (fst (post_api_behavior e b st))"
proof (cases "rejected b")
  case True
  with assms show ?thesis by (simp add: post_api_behavior_def)
next
  case False
  let ?b1 = "assign_mode b (behavior st)"
  from assms False have b1: "valid_behavior ?b1 \<and> truthy_num (errorCode ?b1)"
    using assign_mode_valid [of b "behavior st"] by (simp add: wf_state_def valid_behavior_def)
  have len: "length (receivedLog st) \<le> MAX_LOG"
    using assms by (simp add: wf_state_def)
  show ?thesis
  proof (cases "assign_errorCode e b ?b1")
    case None
    with False b1 len show ?thesis by (simp add: post_api_behavior_def wf_state_def)
  next
    case (Some b2)
    with b1 have b2: "valid_behavior b2 \<and> truthy_num (errorCode b2)"
      using assign_errorCode_Some [OF Some] by (simp add: valid_behavior_def)
    show ?thesis
    proof (cases "assign_errorMessage e b b2")
      case None
      with False Some b2 len show ?thesis by (simp add: post_api_behavior_def wf_state_def)
    next
      case (Some b3)
      note s3 = Some
      with b2 have b3: "valid_behavior b3 \<and> truthy_num (errorCode b3)"
        using assign_errorMessage_Some [OF Some] by (simp add: valid_behavior_def)
      show ?thesis
      proof (cases "assign_delayMs e b b3")
        case None
        with False \<open>assign_errorCode e b ?b1 = Some b2\<close> s3 b3 len show ?thesis
          by (simp add: post_api_behavior_def wf_state_def)
      next
        case (Some b4)
        with b3 have b4: "valid_behavior b4 \<and> truthy_num (errorCode b4)"
          using assign_delayMs_Some [OF Some] by (simp add: valid_behavior_def)
        with False \<open>assign_errorCode e b ?b1 = Some b2\<close> s3 Some len show ?thesis
          by (simp add: post_api_behavior_def wf_state_def)
      qed
    qed
  qed
qed

lemma wf_initial: "wf_state initial"
  by (simp add: wf_state_def initial_def valid_behavior_def DEFAULT_BEHAVIOR_def truthy_num_def
      js_ge_def MAX_LOG_def)

lemma wf_reset: "wf_state st \<Longrightarrow> wf_state (fst (post_api_behavior_reset st))"
  by (simp add: wf_state_def post_api_behavior_reset_def Let_def valid_behavior_def
      DEFAULT_BEHAVIOR_def truthy_num_def js_ge_def)

lemma wf_clear: "wf_state st \<Longrightarrow> wf_state (fst (post_api_inbox_clear st))"
  by (simp add: wf_state_def post_api_inbox_clear_def)

lemma fst_handle_after_delay:
  "\<exists>rs nt. fst (handle_after_delay e t req st) = logReceived t req rs nt st"
  by (auto simp: handle_after_delay_def Let_def)

lemma wf_handle_after_delay: "wf_state st \<Longrightarrow> wf_state (fst (handle_after_delay e t req st))"
  using fst_handle_after_delay [of e t req st] by (auto simp: wf_logReceived)

lemma wf_run_event: "wf_state st \<Longrightarrow> wf_state (run_event e st ev)"
  by (cases ev) (simp_all add: wf_post_api_behavior wf_reset wf_clear wf_handle_after_delay)

lemma reachable_wf: "reachable e st \<Longrightarrow> wf_state st"
  by (induction rule: reachable.induct) (simp_all add: wf_initial wf_run_event)

lemma reachable_foldl: "reachable e st \<Longrightarrow> reachable e (foldl (run_event e) st evs)"
  by (induction evs arbitrary: st) (simp_all add: reachable.turn)

lemma reachable_at_resume: "reachable e st \<Longrightarrow> reachable e (at_resume e during st)"
  by (simp add: at_resume_def reachable_foldl)

lemma handle_at_resume: "handle e during t req st = handle_after_delay e t req (at_resume e during st)"
  by (simp add: handle_def at_resume_def)

lemma new_entry_behavior:
  "behavior st' = behavior st \<Longrightarrow> new_entry t req rs nt st' = new_entry t req rs nt st"
  by (simp add: new_entry_def)

lemma take_append_take: "take n (xs @ take n ys) = take n (xs @ ys)"
  by (simp add: min_def)

lemma receivedLog_record_all:
  "length (receivedLog st) \<le> MAX_LOG \<Longrightarrow>
   receivedLog (record_all calls st) =
     take MAX_LOG (rev (map (\<lambda>(t, req, rs, nt). new_entry t req rs nt st) calls) @ receivedLog st)"
proof (induction calls arbitrary: st)
  case Nil
  then show ?case by simp
next
  case (Cons c calls)
  obtain t req rs nt where c: "c = (t, req, rs, nt)" by (cases c) auto
  let ?st1 = "logReceived t req rs nt st"
  have beh: "behavior ?st1 = behavior st" by simp
  have len: "length (receivedLog ?st1) \<le> MAX_LOG"
    using Cons.prems by (rule length_logReceived)
  have same: "(\<lambda>(t, req, rs, nt). new_entry t req rs nt ?st1) = (\<lambda>(t, req, rs, nt). new_entry t req rs nt st)"
    by (auto simp: fun_eq_iff new_entry_behavior [OF beh])
  have "receivedLog (record_all (c # calls) st) = receivedLog (record_all calls ?st1)"
    by (simp add: c)
  also have "\<dots> = take MAX_LOG (rev (map (\<lambda>(t, req, rs, nt). new_entry t req rs nt st) calls)
                      @ receivedLog ?st1)"
    using Cons.IH [OF len] by (simp only: same)
  also have "\<dots> = take MAX_LOG (rev (map (\<lambda>(t, req, rs, nt). new_entry t req rs nt st) calls)
                      @ (new_entry t req rs nt st # receivedLog st))"
    by (simp only: take_logReceived [OF Cons.prems] take_append_take)
  finally show ?case by (simp add: c)
qed

section \<open>The properties\<close>

text \<open>
  C6. The request log never holds more than 200 entries and is ordered newest first:
  each record operation prepends one entry and, when the cap is exceeded, evicts exactly
  the oldest one. Recording 205 entries into an empty log leaves exactly 200 entries, the
  5 oldest evicted, newest first.
\<close>

theorem log_bounded_newest_first:
  "(reachable e st \<longrightarrow> length (receivedLog st) \<le> 200)
   \<and> (length (receivedLog st) \<le> 200 \<longrightarrow>
        receivedLog (logReceived t req rs nt st) =
          take 200 (new_entry t req rs nt st # receivedLog st)
        \<and> length (receivedLog (logReceived t req rs nt st)) \<le> 200)
   \<and> (receivedLog st = [] \<and> length calls = 205 \<longrightarrow>
        receivedLog (record_all calls st) =
          rev (drop 5 (map (\<lambda>(t, req, rs, nt). new_entry t req rs nt st) calls))
        \<and> length (receivedLog (record_all calls st)) = 200)"
proof (intro conjI impI)
  assume "reachable e st"
  then show "length (receivedLog st) \<le> 200"
    using reachable_wf [of e st] by (simp add: wf_state_def MAX_LOG_def)
next
  assume "length (receivedLog st) \<le> 200"
  then have len: "length (receivedLog st) \<le> MAX_LOG" by (simp add: MAX_LOG_def)
  show "receivedLog (logReceived t req rs nt st) = take 200 (new_entry t req rs nt st # receivedLog st)"
    using take_logReceived [OF len] by (simp add: MAX_LOG_def)
  show "length (receivedLog (logReceived t req rs nt st)) \<le> 200"
    using length_logReceived [OF len] by (simp add: MAX_LOG_def)
next
  assume a: "receivedLog st = [] \<and> length calls = 205"
  let ?es = "map (\<lambda>(t, req, rs, nt). new_entry t req rs nt st) calls"
  have "receivedLog (record_all calls st) = take 200 (rev ?es)"
    using receivedLog_record_all [of st calls] a by (simp add: MAX_LOG_def)
  also have "\<dots> = rev (drop 5 ?es)"
    using a by (simp add: take_rev)
  finally show "receivedLog (record_all calls st) = rev (drop 5 ?es)" .
  then show "length (receivedLog (record_all calls st)) = 200"
    using a by simp
qed

theorem log_bounded_newest_first_witness:
  "length (receivedLog (record_all (map (\<lambda>i. (stamp_no i, pdf_upload, Fin 200, None)) [0 ..< 205]) initial)) = 200
   \<and> receivedLog (record_all (map (\<lambda>i. (stamp_no i, pdf_upload, Fin 200, None)) [0 ..< 205]) initial)
     = rev (map (\<lambda>i. new_entry (stamp_no i) pdf_upload (Fin 200) None initial) [5 ..< 205])"
proof -
  have "receivedLog initial = []"
    by (simp add: initial_def)
  moreover have "length (map (\<lambda>i. (stamp_no i, pdf_upload, Fin 200, None :: string option)) [0 ..< 205]) = 205"
    by (simp del: upt_rec_numeral)
  ultimately show ?thesis
    using log_bounded_newest_first [of decimal_engine initial "stamp_no 0" pdf_upload "Fin 200" None
          "map (\<lambda>i. (stamp_no i, pdf_upload, Fin 200, None)) [0 ..< 205]"]
    by (simp add: drop_map comp_def del: upt_rec_numeral)
qed

subsection \<open>The upload handler\<close>

lemma logReceived_eq:
  "logReceived t req rs nt st =
     st\<lparr>receivedLog := new_entry t req rs nt st #
          (if MAX_LOG \<le> length (receivedLog st) then butlast (receivedLog st)
           else receivedLog st)\<rparr>"
proof -
  have "logReceived t req rs nt st = st\<lparr>receivedLog := receivedLog (logReceived t req rs nt st)\<rparr>"
    by (simp add: logReceived_def Let_def)
  then show ?thesis
    by (simp only: receivedLog_logReceived)
qed

lemma new_entry_fields [simp]:
  "responseStatus (new_entry t req rs nt st) = rs"
  "entryNote (new_entry t req rs nt st) = or_str nt None"
  "chaosMode (new_entry t req rs nt st) = mode (behavior st)"
  "entryId (new_entry t req rs nt st) = stamp_id t"
  by (simp_all add: new_entry_def Let_def)

lemma new_entry_file:
  "req_file req = Some f \<Longrightarrow>
     fileName (new_entry t req rs nt st) = file_label (Some f)
     \<and> fileSize (new_entry t req rs nt st) = file_size f"
  "req_file req = None \<Longrightarrow> req_files_pdf req = None \<Longrightarrow>
     fileName (new_entry t req rs nt st) = None \<and> fileSize (new_entry t req rs nt st) = None"
  by (simp_all add: new_entry_def Let_def file_label_def or_str_def split: option.splits)

lemma post_api_behavior_rejected:
  "rejected b \<Longrightarrow>
   post_api_behavior e b st =
     (st, Sent \<lparr>status = Fin 400,
                 body = JObj [(''error'', JStr ''mode must be normal, error, or timeout'')]\<rparr>)"
  by (simp add: post_api_behavior_def)

lemma post_api_behavior_ran:
  "\<not> rejected b \<Longrightarrow>
   \<exists>b'. fst (post_api_behavior e b st) = st\<lparr>behavior := b'\<rparr>
      \<and> mode b' = mode (assign_mode b (behavior st))
      \<and> (truthy_num (errorCode (behavior st)) \<longrightarrow> truthy_num (errorCode b'))
      \<and> (js_ge (delayMs (behavior st)) (Fin 0) \<longrightarrow> js_ge (delayMs b') (Fin 0))"
  by (auto simp: post_api_behavior_def Let_def split: option.splits
      dest!: assign_errorCode_Some assign_errorMessage_Some assign_delayMs_Some)

lemma valid_post_api_behavior:
  assumes "valid_behavior (behavior st)"
  shows "valid_behavior (behavior (fst (post_api_behavior e b st)))"
proof (cases "rejected b")
  case True
  with assms show ?thesis by (simp add: post_api_behavior_rejected)
next
  case False
  from post_api_behavior_ran [OF False, of e st] obtain b' where
    b': "fst (post_api_behavior e b st) = st\<lparr>behavior := b'\<rparr>"
        "mode b' = mode (assign_mode b (behavior st))"
        "js_ge (delayMs (behavior st)) (Fin 0) \<longrightarrow> js_ge (delayMs b') (Fin 0)"
    by blast
  with assms assign_mode_valid [OF False, of "behavior st"] show ?thesis
    by (simp add: valid_behavior_def)
qed

text \<open>
  C9. For every prior state of the Behavior Store, reset restores and returns exactly the
  default Behavior (mode normal, errorCode 500, empty errorMessage, delayMs 0), and a
  following get returns those same defaults.
\<close>

theorem reset_restores_defaults:
  "DEFAULT_BEHAVIOR =
     \<lparr>mode = ''normal'', errorCode = Fin 500, errorMessage = [], delayMs = Fin 0\<rparr>
   \<and> post_api_behavior_reset st =
       (st\<lparr>behavior := DEFAULT_BEHAVIOR\<rparr>,
        Sent \<lparr>status = Fin 200, body = behavior_json DEFAULT_BEHAVIOR\<rparr>)
   \<and> snd (get_api_behavior (fst (post_api_behavior_reset st))) =
       Sent \<lparr>status = Fin 200, body = behavior_json DEFAULT_BEHAVIOR\<rparr>"
  by (simp add: DEFAULT_BEHAVIOR_def post_api_behavior_reset_def get_api_behavior_def Let_def)

theorem reset_restores_defaults_witness:
  "behavior (fst (post_api_behavior_reset
      \<lparr>behavior = \<lparr>mode = ''timeout'', errorCode = Fin 503, errorMessage = ''down'',
                    delayMs = Fin 900\<rparr>,
       receivedLog = []\<rparr>)) =
     \<lparr>mode = ''normal'', errorCode = Fin 500, errorMessage = [], delayMs = Fin 0\<rparr>"
  using reset_restores_defaults
    [of "\<lparr>behavior = \<lparr>mode = ''timeout'', errorCode = Fin 503, errorMessage = ''down'',
                        delayMs = Fin 900\<rparr>,
          receivedLog = []\<rparr>"]
  by simp

text \<open>
  C7. After every Behavior Store operation (initialization, set, reset) the stored mode
  is one of normal, error, timeout and the stored delayMs is at least 0; in particular
  a set with delayMs \<open>-5\<close> stores delayMs 0.
\<close>

theorem behavior_store_invariant:
  "valid_behavior (behavior initial)
   \<and> (valid_behavior (behavior st) \<longrightarrow>
        valid_behavior (behavior (fst (post_api_behavior e b st))))
   \<and> valid_behavior (behavior (fst (post_api_behavior_reset st)))
   \<and> delayMs (behavior (fst (post_api_behavior e
          (empty_body\<lparr>b_delayMs := Some (JNum (Fin (- 5)))\<rparr>) st))) = Fin 0"
proof (intro conjI impI)
  show "valid_behavior (behavior initial)"
    using wf_initial by (simp add: wf_state_def)
next
  assume "valid_behavior (behavior st)"
  then show "valid_behavior (behavior (fst (post_api_behavior e b st)))"
    by (rule valid_post_api_behavior)
next
  show "valid_behavior (behavior (fst (post_api_behavior_reset st)))"
    by (simp add: post_api_behavior_reset_def Let_def valid_behavior_def DEFAULT_BEHAVIOR_def
        js_ge_def)
next
  show "delayMs (behavior (fst (post_api_behavior e
          (empty_body\<lparr>b_delayMs := Some (JNum (Fin (- 5)))\<rparr>) st))) = Fin 0"
    by (simp add: post_api_behavior_def empty_body_def rejected_def Let_def assign_mode_def
        assign_errorCode_def assign_errorMessage_def assign_delayMs_def or_num_def truthy_num_def
        Math_max_def)
qed


theorem behavior_store_invariant_witness:
  "valid_behavior (behavior initial)
   \<and> valid_behavior (behavior (fst (post_api_behavior decimal_engine
         (empty_body\<lparr>b_mode := Some (JStr ''timeout''), b_delayMs := Some (JStr ''12'')\<rparr>)
         initial)))"
  using behavior_store_invariant
    [of initial decimal_engine
        "empty_body\<lparr>b_mode := Some (JStr ''timeout''), b_delayMs := Some (JStr ''12'')\<rparr>"]
  by blast

text \<open>
  C5. For every upload request handled while mode = timeout, exactly one LogEntry is
  recorded, with responseStatus 0 and note "timeout (no response sent)"; no HTTP response
  is sent for the request and nothing else happens after the entry is recorded.
\<close>

theorem timeout_mode_upload:
  assumes "s = at_resume e during st"
    and "mode (behavior s) = ''timeout''"
    and "entry = new_entry t req (Fin 0) (Some ''timeout (no response sent)'') s"
  shows "handle e during t req st =
           (s\<lparr>receivedLog := entry #
                (if MAX_LOG \<le> length (receivedLog s) then butlast (receivedLog s)
                 else receivedLog s)\<rparr>,
            Hang)
         \<and> responseStatus entry = Fin 0
         \<and> entryNote entry = Some ''timeout (no response sent)''
         \<and> chaosMode entry = ''timeout''"
  using assms
  by (simp add: handle_at_resume handle_after_delay_def logReceived_eq or_str_def)

theorem timeout_mode_upload_witness:
  "handle decimal_engine [] (stamp_no 7) pdf_upload
     \<lparr>behavior = DEFAULT_BEHAVIOR\<lparr>mode := ''timeout''\<rparr>, receivedLog = []\<rparr> =
     (\<lparr>behavior = DEFAULT_BEHAVIOR\<lparr>mode := ''timeout''\<rparr>,
       receivedLog =
         [\<lparr>entryId = ''id7'', time = ''t7'', entryMethod = ''POST'', path = ''/upload'',
           fileName = Some ''report.pdf'', fileSize = Some (Fin 1024), hasAuth = True,
           responseStatus = Fin 0, entryNote = Some ''timeout (no response sent)'',
           chaosMode = ''timeout''\<rparr>]\<rparr>,
      Hang)"
  using timeout_mode_upload
    [of "\<lparr>behavior = DEFAULT_BEHAVIOR\<lparr>mode := ''timeout''\<rparr>, receivedLog = []\<rparr>"
        decimal_engine "[]"
        "\<lparr>behavior = DEFAULT_BEHAVIOR\<lparr>mode := ''timeout''\<rparr>, receivedLog = []\<rparr>"
        "new_entry (stamp_no 7) pdf_upload (Fin 0) (Some ''timeout (no response sent)'')
           \<lparr>behavior = DEFAULT_BEHAVIOR\<lparr>mode := ''timeout''\<rparr>, receivedLog = []\<rparr>"
        "stamp_no 7" pdf_upload]
  by (simp add: at_resume_def DEFAULT_BEHAVIOR_def new_entry_def stamp_no_def pdf_upload_def
      file_label_def or_str_def MAX_LOG_def)

text \<open>
  C8. For every upload request handled while mode = normal, a LogEntry is recorded with
  responseStatus 200 and no note, and the response has status 200 with the JSON body
  \<open>{ok: true, message: "PDF received", filename: <attached file name or null>}\<close>.
  An upload with no attached file follows the same path; the filename of the response and
  the file fields of the log entry are then null.
\<close>

theorem normal_mode_upload:
  assumes "s = at_resume e during st"
    and "mode (behavior s) = ''normal''"
    and "entry = new_entry t req (Fin 200) None s"
  shows "(\<exists>filename.
            handle e during t req st =
              (s\<lparr>receivedLog := entry #
                   (if MAX_LOG \<le> length (receivedLog s) then butlast (receivedLog s)
                    else receivedLog s)\<rparr>,
               Sent \<lparr>status = Fin 200,
                     body = JObj [(''ok'', JBool True), (''message'', JStr ''PDF received''),
                                  (''filename'', filename)]\<rparr>)
            \<and> (\<forall>f n. req_file req = Some f \<and> originalname f = Some n \<and> n \<noteq> [] \<longrightarrow>
                   filename = JStr n \<and> fileName entry = Some n \<and> fileSize entry = file_size f)
            \<and> (req_file req = None \<and> req_files_pdf req = None \<longrightarrow>
                   filename = JNull \<and> fileName entry = None \<and> fileSize entry = None))
         \<and> responseStatus entry = Fin 200
         \<and> entryNote entry = None
         \<and> chaosMode entry = ''normal''"
  using assms
  by (auto simp: handle_at_resume handle_after_delay_def logReceived_eq or_str_def
      new_entry_file file_label_def)

theorem normal_mode_upload_witness:
  "handle decimal_engine [] (stamp_no 1) bare_upload initial =
     (\<lparr>behavior = DEFAULT_BEHAVIOR,
       receivedLog =
         [\<lparr>entryId = ''id1'', time = ''t1'', entryMethod = ''POST'', path = ''/upload'',
           fileName = None, fileSize = None, hasAuth = False,
           responseStatus = Fin 200, entryNote = None, chaosMode = ''normal''\<rparr>]\<rparr>,
      Sent \<lparr>status = Fin 200,
            body = JObj [(''ok'', JBool True), (''message'', JStr ''PDF received''),
                         (''filename'', JNull)]\<rparr>)"
  using normal_mode_upload
    [of initial decimal_engine "[]" initial
        "new_entry (stamp_no 1) bare_upload (Fin 200) None initial" "stamp_no 1" bare_upload]
  by (simp add: at_resume_def initial_def DEFAULT_BEHAVIOR_def new_entry_def stamp_no_def
      bare_upload_def file_label_def or_str_def MAX_LOG_def)

lemma ERROR_MESSAGES_nonempty: "ERROR_MESSAGES c = Some p \<Longrightarrow> p \<noteq> []"
  by (auto simp: ERROR_MESSAGES_def split: if_splits)

lemma handle_after_delay_error:
  assumes "mode (behavior s) = ''error''" and "truthy_num (errorCode (behavior s))"
  shows "handle_after_delay e t req s =
           (logReceived t req (errorCode (behavior s))
              (Some (''chaos: '' @ spec_effective_message e (behavior s))) s,
            res_status_json (errorCode (behavior s))
              (JObj [(''error'', JStr (spec_effective_message e (behavior s)))]))"
  using assms
  by (auto simp: handle_after_delay_def Let_def or_num_def or_str_def spec_effective_message_def
      split: option.splits dest: ERROR_MESSAGES_nonempty)

lemma res_status_json_Sent:
  "res_status_json c p = Sent r \<Longrightarrow> r = \<lparr>status = c, body = p\<rparr>"
  by (auto simp: res_status_json_def split: if_splits)

lemma res_status_json_with_body:
  assumes "200 \<le> k" and "k \<le> 999" and "k \<noteq> 204" and "k \<noteq> 205" and "k \<noteq> 304"
  shows "res_status_json (Fin (of_int k)) p = Sent \<lparr>status = Fin (of_int k), body = p\<rparr>"
  using assms by (simp add: res_status_json_def valid_status_def status_with_body_def)

lemma res_status_json_no_body:
  "res_status_json (Fin 204) p = SentNoBody (Fin 204)"
  "res_status_json (Fin 304) p = SentNoBody (Fin 304)"
  by (simp_all add: res_status_json_def valid_status_def status_with_body_def)

lemma hd_logReceived: "hd (receivedLog (logReceived t req rs nt st)) = new_entry t req rs nt st"
  by (simp add: receivedLog_logReceived)

text \<open>
  C4 (as amended). For every upload request handled while mode = error, the effective
  message is the explicit errorMessage if set, else the entry of the fixed code-to-phrase
  table for errorCode, else \<open>Error <code>\<close>, and a LogEntry is recorded with
  responseStatus equal to errorCode and note \<open>chaos: <message>\<close>. When errorCode is an
  integer from 200 to 999 other than 204, 205 and 304, the response has that status with
  the JSON body \<open>{error: <message>}\<close>; for errorCode 204 or 304 the response has that
  status and no body.
\<close>

theorem error_mode_upload:
  assumes "reachable e st"
    and "s = at_resume e during st"
    and "mode (behavior s) = ''error''"
    and "msg = spec_effective_message e (behavior s)"
    and "entry = new_entry t req (errorCode (behavior s)) (Some (''chaos: '' @ msg)) s"
  shows "fst (handle e during t req st) =
           s\<lparr>receivedLog := entry #
                (if MAX_LOG \<le> length (receivedLog s) then butlast (receivedLog s)
                 else receivedLog s)\<rparr>
         \<and> responseStatus entry = errorCode (behavior s)
         \<and> entryNote entry = Some (''chaos: '' @ msg)
         \<and> chaosMode entry = ''error''
         \<and> (errorCode (behavior s) = Fin (of_int k) \<and> 200 \<le> k \<and> k \<le> 999
              \<and> k \<noteq> 204 \<and> k \<noteq> 205 \<and> k \<noteq> 304 \<longrightarrow>
            snd (handle e during t req st) =
              Sent \<lparr>status = errorCode (behavior s), body = JObj [(''error'', JStr msg)]\<rparr>)
         \<and> (errorCode (behavior s) = Fin 204 \<or> errorCode (behavior s) = Fin 304 \<longrightarrow>
            snd (handle e during t req st) = SentNoBody (errorCode (behavior s)))"
proof -
  have "reachable e s"
    using assms(1,2) by (simp add: reachable_at_resume)
  then have "truthy_num (errorCode (behavior s))"
    using reachable_wf [of e s] by (simp add: wf_state_def)
  with assms(3) have h: "handle_after_delay e t req s =
      (logReceived t req (errorCode (behavior s)) (Some (''chaos: '' @ msg)) s,
       res_status_json (errorCode (behavior s)) (JObj [(''error'', JStr msg)]))"
    unfolding assms(4) by (rule handle_after_delay_error)
  have sent: "snd (handle e during t req st) =
      res_status_json (errorCode (behavior s)) (JObj [(''error'', JStr msg)])"
    using h assms(2) by (simp add: handle_at_resume)
  have log: "fst (handle e during t req st) =
           s\<lparr>receivedLog := entry #
                (if MAX_LOG \<le> length (receivedLog s) then butlast (receivedLog s)
                 else receivedLog s)\<rparr>"
    using h assms(2,5) by (simp add: handle_at_resume logReceived_eq)
  have fields: "responseStatus entry = errorCode (behavior s)
         \<and> entryNote entry = Some (''chaos: '' @ msg) \<and> chaosMode entry = ''error''"
    using assms(3,5) by (simp add: or_str_def)
  have body: "snd (handle e during t req st) =
              Sent \<lparr>status = errorCode (behavior s), body = JObj [(''error'', JStr msg)]\<rparr>"
    if "errorCode (behavior s) = Fin (of_int k) \<and> 200 \<le> k \<and> k \<le> 999
          \<and> k \<noteq> 204 \<and> k \<noteq> 205 \<and> k \<noteq> 304"
    using that by (simp add: sent res_status_json_with_body)
  have nobody: "snd (handle e during t req st) = SentNoBody (errorCode (behavior s))"
    if "errorCode (behavior s) = Fin 204 \<or> errorCode (behavior s) = Fin 304"
    using that by (auto simp: sent res_status_json_no_body)
  from log fields body nobody show ?thesis
    by blast
qed

theorem error_mode_upload_witness:
  "handle decimal_engine [] (stamp_no 2) bare_upload
     (run_event decimal_engine initial
        (PostBehavior (empty_body\<lparr>b_mode := Some (JStr ''error''),
                                   b_errorCode := Some (JNum (Fin 503))\<rparr>))) =
     (\<lparr>behavior = \<lparr>mode = ''error'', errorCode = Fin 503, errorMessage = [],
                    delayMs = Fin 0\<rparr>,
       receivedLog =
         [\<lparr>entryId = ''id2'', time = ''t2'', entryMethod = ''POST'', path = ''/upload'',
           fileName = None, fileSize = None, hasAuth = False,
           responseStatus = Fin 503, entryNote = Some ''chaos: Service Unavailable'',
           chaosMode = ''error''\<rparr>]\<rparr>,
      Sent \<lparr>status = Fin 503, body = JObj [(''error'', JStr ''Service Unavailable'')]\<rparr>)"
proof -
  let ?set = "PostBehavior (empty_body\<lparr>b_mode := Some (JStr ''error''),
                                        b_errorCode := Some (JNum (Fin 503))\<rparr>)"
  let ?st = "run_event decimal_engine initial ?set"
  have st: "?st = \<lparr>behavior = \<lparr>mode = ''error'', errorCode = Fin 503, errorMessage = [],
                                delayMs = Fin 0\<rparr>, receivedLog = []\<rparr>"
    by (simp add: post_api_behavior_def empty_body_def rejected_def Let_def assign_mode_def
        assign_errorCode_def assign_errorMessage_def assign_delayMs_def or_num_def truthy_num_def
        initial_def DEFAULT_BEHAVIOR_def)
  have r: "reachable decimal_engine ?st"
    by (rule reachable.turn [OF reachable.start])
  have "fst (handle decimal_engine [] (stamp_no 2) bare_upload ?st) =
          \<lparr>behavior = \<lparr>mode = ''error'', errorCode = Fin 503, errorMessage = [],
                         delayMs = Fin 0\<rparr>,
            receivedLog =
              [\<lparr>entryId = ''id2'', time = ''t2'', entryMethod = ''POST'', path = ''/upload'',
                fileName = None, fileSize = None, hasAuth = False,
                responseStatus = Fin 503, entryNote = Some ''chaos: Service Unavailable'',
                chaosMode = ''error''\<rparr>]\<rparr>
        \<and> snd (handle decimal_engine [] (stamp_no 2) bare_upload ?st) =
          Sent \<lparr>status = Fin 503, body = JObj [(''error'', JStr ''Service Unavailable'')]\<rparr>"
    using error_mode_upload [OF r, of ?st "[]" "''Service Unavailable''"
        "new_entry (stamp_no 2) bare_upload (Fin 503) (Some ''chaos: Service Unavailable'') ?st"
        "stamp_no 2" bare_upload 503]
    unfolding st
    by (simp add: at_resume_def spec_effective_message_def ERROR_MESSAGES_def new_entry_def
        stamp_no_def bare_upload_def file_label_def or_str_def MAX_LOG_def)
  then show ?thesis
    by (simp add: prod_eq_iff)
qed

theorem error_mode_upload_counterexample:
  "handle decimal_engine [] (stamp_no 2) bare_upload
     (run_event decimal_engine initial
        (PostBehavior (empty_body\<lparr>b_mode := Some (JStr ''error''),
                                   b_errorCode := Some (JNum (Fin 42))\<rparr>))) =
     (\<lparr>behavior = \<lparr>mode = ''error'', errorCode = Fin 42, errorMessage = [],
                    delayMs = Fin 0\<rparr>,
       receivedLog =
         [\<lparr>entryId = ''id2'', time = ''t2'', entryMethod = ''POST'', path = ''/upload'',
           fileName = None, fileSize = None, hasAuth = False,
           responseStatus = Fin 42, entryNote = Some ''chaos: Error 42'',
           chaosMode = ''error''\<rparr>]\<rparr>,
      Thrown)
   \<and> snd (handle decimal_engine [] (stamp_no 2) bare_upload
       (run_event decimal_engine initial
          (PostBehavior (empty_body\<lparr>b_mode := Some (JStr ''error''),
                                     b_errorCode := Some (JNum (Fin 204))\<rparr>)))) =
       SentNoBody (Fin 204)"
  by (simp add: handle_def handle_after_delay_def logReceived_def new_entry_def Let_def
      post_api_behavior_def empty_body_def rejected_def assign_mode_def
      assign_errorCode_def assign_errorMessage_def assign_delayMs_def initial_def
      DEFAULT_BEHAVIOR_def or_num_def truthy_num_def or_str_def ERROR_MESSAGES_def
      file_label_def stamp_no_def bare_upload_def MAX_LOG_def decimal_engine_def
      res_status_json_def valid_status_def status_with_body_def)

text \<open>
  C10. An errorMessage equal to the empty string is treated as absent throughout: the
  default Behavior carries the empty errorMessage, the message of Error mode comes from
  the code-to-phrase table (or is \<open>Error <code>\<close>) whenever the stored errorMessage is
  empty, and a set with errorMessage \<open>""\<close> clears a custom message configured before.
  The message of Error mode is read off the note of the recorded LogEntry, and off the
  body of the response whenever one is sent with a body.
\<close>

theorem empty_errorMessage_is_absent:
  "errorMessage DEFAULT_BEHAVIOR = []
   \<and> (reachable e st \<and> mode (behavior (at_resume e during st)) = ''error''
        \<and> errorMessage (behavior (at_resume e during st)) = [] \<longrightarrow>
       entryNote (hd (receivedLog (fst (handle e during t req st)))) =
         Some (''chaos: '' @
           (case ERROR_MESSAGES (errorCode (behavior (at_resume e during st))) of
              Some phrase \<Rightarrow> phrase
            | None \<Rightarrow> ''Error '' @
                NumberToString e (errorCode (behavior (at_resume e during st)))))
       \<and> (\<forall>r. snd (handle e during t req st) = Sent r \<longrightarrow>
             body r = JObj [(''error'', JStr
               (case ERROR_MESSAGES (errorCode (behavior (at_resume e during st))) of
                  Some phrase \<Rightarrow> phrase
                | None \<Rightarrow> ''Error '' @
                    NumberToString e (errorCode (behavior (at_resume e during st)))))]))
   \<and> post_api_behavior e (empty_body\<lparr>b_errorMessage := Some (JStr [])\<rparr>) st' =
       (st'\<lparr>behavior := (behavior st')\<lparr>errorMessage := []\<rparr>\<rparr>,
        Sent \<lparr>status = Fin 200,
              body = behavior_json ((behavior st')\<lparr>errorMessage := []\<rparr>)\<rparr>)"
proof (intro conjI impI allI)
  show "errorMessage DEFAULT_BEHAVIOR = []"
    by (simp add: DEFAULT_BEHAVIOR_def)
next
  let ?s = "at_resume e during st"
  let ?m = "case ERROR_MESSAGES (errorCode (behavior ?s)) of
              Some phrase \<Rightarrow> phrase
            | None \<Rightarrow> ''Error '' @ NumberToString e (errorCode (behavior ?s))"
  assume a: "reachable e st \<and> mode (behavior ?s) = ''error'' \<and> errorMessage (behavior ?s) = []"
  then have "reachable e ?s"
    by (simp add: reachable_at_resume)
  then have "truthy_num (errorCode (behavior ?s))"
    using reachable_wf [of e ?s] by (simp add: wf_state_def)
  with a have h: "handle e during t req st =
      (logReceived t req (errorCode (behavior ?s)) (Some (''chaos: '' @ ?m)) ?s,
       res_status_json (errorCode (behavior ?s)) (JObj [(''error'', JStr ?m)]))"
    by (simp add: handle_at_resume handle_after_delay_error spec_effective_message_def)
  show "entryNote (hd (receivedLog (fst (handle e during t req st)))) = Some (''chaos: '' @ ?m)"
    by (simp add: h hd_logReceived or_str_def)
  fix r
  assume "snd (handle e during t req st) = Sent r"
  then have "res_status_json (errorCode (behavior ?s)) (JObj [(''error'', JStr ?m)]) = Sent r"
    by (simp add: h)
  then show "body r = JObj [(''error'', JStr ?m)]"
    by (auto dest: res_status_json_Sent)
next
  show "post_api_behavior e (empty_body\<lparr>b_errorMessage := Some (JStr [])\<rparr>) st' =
       (st'\<lparr>behavior := (behavior st')\<lparr>errorMessage := []\<rparr>\<rparr>,
        Sent \<lparr>status = Fin 200,
              body = behavior_json ((behavior st')\<lparr>errorMessage := []\<rparr>)\<rparr>)"
    by (simp add: post_api_behavior_def empty_body_def rejected_def Let_def assign_mode_def
        assign_errorCode_def assign_errorMessage_def assign_delayMs_def)
qed

theorem empty_errorMessage_is_absent_witness:
  "entryNote (hd (receivedLog (fst (handle decimal_engine [] (stamp_no 3) bare_upload
     (foldl (run_event decimal_engine) initial
        [PostBehavior (empty_body\<lparr>b_mode := Some (JStr ''error''),
                                   b_errorCode := Some (JNum (Fin 418)),
                                   b_errorMessage := Some (JStr ''Custom'')\<rparr>),
         PostBehavior (empty_body\<lparr>b_errorMessage := Some (JStr [])\<rparr>)]))))) =
     Some ''chaos: Error 418''"
proof -
  let ?evs = "[PostBehavior (empty_body\<lparr>b_mode := Some (JStr ''error''),
                                   b_errorCode := Some (JNum (Fin 418)),
                                   b_errorMessage := Some (JStr ''Custom'')\<rparr>),
         PostBehavior (empty_body\<lparr>b_errorMessage := Some (JStr [])\<rparr>)]"
  let ?st = "foldl (run_event decimal_engine) initial ?evs"
  have st: "?st = \<lparr>behavior = \<lparr>mode = ''error'', errorCode = Fin 418, errorMessage = [],
                                delayMs = Fin 0\<rparr>, receivedLog = []\<rparr>"
    by (simp add: post_api_behavior_def empty_body_def rejected_def Let_def assign_mode_def
        assign_errorCode_def assign_errorMessage_def assign_delayMs_def or_num_def truthy_num_def
        initial_def DEFAULT_BEHAVIOR_def)
  have r: "reachable decimal_engine ?st"
    by (rule reachable_foldl [OF reachable.start])
  show ?thesis
    using empty_errorMessage_is_absent [of decimal_engine ?st "[]" "stamp_no 3" bare_upload initial] r
    unfolding st
    by (simp add: at_resume_def ERROR_MESSAGES_def decimal_engine_def)
qed

lemma chaosMode_handle_after_delay:
  "chaosMode (hd (receivedLog (fst (handle_after_delay e t req st)))) = mode (behavior st)"
  using fst_handle_after_delay [of e t req st] by (auto simp: hd_logReceived)

lemma Hang_handle_after_delay:
  "(snd (handle_after_delay e t req st) = Hang) = (mode (behavior st) = ''timeout'')"
  by (simp add: handle_after_delay_def Let_def res_status_json_def)

text \<open>
  C1 (as amended). Only \<open>delayMs\<close> is read when handling starts. The mode is read after
  the delay has elapsed, so a request that waits is answered, and logged with a chaosMode,
  according to the mode that is current when it resumes: handling it across the turns
  that ran during its delay gives what handling it undisturbed in the state after those
  turns gives. A request with no delay is handled in the state in which it arrived.
\<close>

theorem mode_read_after_delay:
  "handle e during t req st = handle e [] t req (at_resume e during st)
   \<and> chaosMode (hd (receivedLog (fst (handle e during t req st)))) =
       mode (behavior (at_resume e during st))
   \<and> (snd (handle e during t req st) = Hang) =
       (mode (behavior (at_resume e during st)) = ''timeout'')
   \<and> (js_gt (delayMs (behavior st)) (Fin 0) \<longrightarrow>
        at_resume e during st = foldl (run_event e) st during)
   \<and> (\<not> js_gt (delayMs (behavior st)) (Fin 0) \<longrightarrow> at_resume e during st = st)"
proof -
  have "handle e [] t req (at_resume e during st) = handle_after_delay e t req (at_resume e during st)"
    by (simp add: handle_def)
  then show ?thesis
    by (simp add: handle_at_resume chaosMode_handle_after_delay Hang_handle_after_delay)
      (simp add: at_resume_def)
qed

theorem mode_read_after_delay_witness:
  "handle decimal_engine [PostBehavior (empty_body\<lparr>b_mode := Some (JStr ''timeout'')\<rparr>)]
     (stamp_no 4) bare_upload (initial\<lparr>behavior := DEFAULT_BEHAVIOR\<lparr>delayMs := Fin 1000\<rparr>\<rparr>) =
   handle decimal_engine [] (stamp_no 4) bare_upload
     (initial\<lparr>behavior := DEFAULT_BEHAVIOR\<lparr>delayMs := Fin 1000, mode := ''timeout''\<rparr>\<rparr>)"
proof -
  let ?st = "initial\<lparr>behavior := DEFAULT_BEHAVIOR\<lparr>delayMs := Fin 1000\<rparr>\<rparr>"
  let ?evs = "[PostBehavior (empty_body\<lparr>b_mode := Some (JStr ''timeout'')\<rparr>)]"
  have d: "js_gt (delayMs (behavior ?st)) (Fin 0)"
    by simp
  have "foldl (run_event decimal_engine) ?st ?evs =
          initial\<lparr>behavior := DEFAULT_BEHAVIOR\<lparr>delayMs := Fin 1000, mode := ''timeout''\<rparr>\<rparr>"
    by (simp add: post_api_behavior_def empty_body_def rejected_def Let_def assign_mode_def
        assign_errorCode_def assign_errorMessage_def assign_delayMs_def)
  with d show ?thesis
    using mode_read_after_delay [of decimal_engine ?evs "stamp_no 4" bare_upload ?st]
    by simp
qed

theorem mode_snapshot_counterexample:
  "mode (behavior (fst (post_api_behavior decimal_engine
       (empty_body\<lparr>b_delayMs := Some (JNum (Fin 1000))\<rparr>) initial))) = ''normal''
   \<and> handle decimal_engine [PostBehavior (empty_body\<lparr>b_mode := Some (JStr ''error'')\<rparr>)]
        (stamp_no 4) bare_upload
        (fst (post_api_behavior decimal_engine
           (empty_body\<lparr>b_delayMs := Some (JNum (Fin 1000))\<rparr>) initial)) =
       (\<lparr>behavior = \<lparr>mode = ''error'', errorCode = Fin 500, errorMessage = [],
                      delayMs = Fin 1000\<rparr>,
         receivedLog =
           [\<lparr>entryId = ''id4'', time = ''t4'', entryMethod = ''POST'', path = ''/upload'',
             fileName = None, fileSize = None, hasAuth = False,
             responseStatus = Fin 500, entryNote = Some ''chaos: Internal Server Error'',
             chaosMode = ''error''\<rparr>]\<rparr>,
        Sent \<lparr>status = Fin 500, body = JObj [(''error'', JStr ''Internal Server Error'')]\<rparr>)
   \<and> snd (handle decimal_engine [] (stamp_no 4) bare_upload
        (fst (post_api_behavior decimal_engine
           (empty_body\<lparr>b_delayMs := Some (JNum (Fin 1000))\<rparr>) initial))) =
       Sent \<lparr>status = Fin 200,
             body = JObj [(''ok'', JBool True), (''message'', JStr ''PDF received''),
                          (''filename'', JNull)]\<rparr>"
  by (simp add: handle_def handle_after_delay_def logReceived_def new_entry_def Let_def
      post_api_behavior_def empty_body_def rejected_def assign_mode_def
      assign_errorCode_def assign_errorMessage_def assign_delayMs_def initial_def
      DEFAULT_BEHAVIOR_def or_num_def truthy_num_def or_str_def ERROR_MESSAGES_def
      file_label_def stamp_no_def bare_upload_def MAX_LOG_def Math_max_def
      res_status_json_def valid_status_def status_with_body_def)

subsection \<open>Validation and coercion of the control input\<close>

lemma not_nullish_Some: "not_nullish (Some v) = (v \<noteq> JNull)"
  by (cases v) simp_all

lemma accepted_post_api_behavior:
  assumes "accepted (post_api_behavior e b st)"
  shows "\<not> rejected b
    \<and> (\<exists>b2 b3 b4.
         assign_errorCode e b (assign_mode b (behavior st)) = Some b2
         \<and> assign_errorMessage e b b2 = Some b3
         \<and> assign_delayMs e b b3 = Some b4
         \<and> fst (post_api_behavior e b st) = st\<lparr>behavior := b4\<rparr>)"
  using assms
  by (auto simp: accepted_def post_api_behavior_def Let_def split: if_splits option.splits)

lemma assign_ignores_mode:
  "assign_errorCode e (b\<lparr>b_mode := x\<rparr>) = assign_errorCode e b"
  "assign_errorMessage e (b\<lparr>b_mode := x\<rparr>) = assign_errorMessage e b"
  "assign_delayMs e (b\<lparr>b_mode := x\<rparr>) = assign_delayMs e b"
  by (simp_all add: fun_eq_iff assign_errorCode_def assign_errorMessage_def assign_delayMs_def)

text \<open>
  C2 (as amended). A set call whose mode is a non-empty string outside normal, error,
  timeout answers 400 with the body \<open>{error: "mode must be normal, error, or timeout"}\<close>
  and leaves the whole Behavior as it was, whatever other fields the call supplies. For
  a mode of the enumerated set, a set of that mode followed by a get returns that mode.
  The empty string is not validated: a call with mode \<open>""\<close> is handled as the same call
  without a mode.
\<close>

theorem invalid_mode_rejected:
  "(b_mode b = Some (JStr m) \<and> m \<noteq> [] \<and> m \<notin> set [''normal'', ''error'', ''timeout''] \<longrightarrow>
      post_api_behavior e b st =
        (st, Sent \<lparr>status = Fin 400,
                    body = JObj [(''error'', JStr ''mode must be normal, error, or timeout'')]\<rparr>))
   \<and> (m \<in> set [''normal'', ''error'', ''timeout''] \<longrightarrow>
        snd (get_api_behavior
               (fst (post_api_behavior e (empty_body\<lparr>b_mode := Some (JStr m)\<rparr>) st))) =
          Sent \<lparr>status = Fin 200, body = behavior_json ((behavior st)\<lparr>mode := m\<rparr>)\<rparr>)
   \<and> (b_mode b = Some (JStr []) \<longrightarrow>
        post_api_behavior e b st = post_api_behavior e (b\<lparr>b_mode := None\<rparr>) st)"
proof (intro conjI impI)
  assume "b_mode b = Some (JStr m) \<and> m \<noteq> [] \<and> m \<notin> set [''normal'', ''error'', ''timeout'']"
  then have "rejected b"
    by (simp add: rejected_def)
  then show "post_api_behavior e b st =
        (st, Sent \<lparr>status = Fin 400,
                    body = JObj [(''error'', JStr ''mode must be normal, error, or timeout'')]\<rparr>)"
    by (rule post_api_behavior_rejected)
next
  assume "m \<in> set [''normal'', ''error'', ''timeout'']"
  then show "snd (get_api_behavior
               (fst (post_api_behavior e (empty_body\<lparr>b_mode := Some (JStr m)\<rparr>) st))) =
          Sent \<lparr>status = Fin 200, body = behavior_json ((behavior st)\<lparr>mode := m\<rparr>)\<rparr>"
    by (auto simp: get_api_behavior_def post_api_behavior_def empty_body_def rejected_def Let_def
        assign_mode_def assign_errorCode_def assign_errorMessage_def assign_delayMs_def)
next
  assume e: "b_mode b = Some (JStr [])"
  have "rejected b = rejected (b\<lparr>b_mode := None\<rparr>)"
    using e by (simp add: rejected_def)
  moreover have "assign_mode b (behavior st) = assign_mode (b\<lparr>b_mode := None\<rparr>) (behavior st)"
    using e by (simp add: assign_mode_def)
  ultimately show "post_api_behavior e b st = post_api_behavior e (b\<lparr>b_mode := None\<rparr>) st"
    unfolding post_api_behavior_def assign_ignores_mode by simp
qed

theorem invalid_mode_rejected_witness:
  "post_api_behavior decimal_engine
     (empty_body\<lparr>b_mode := Some (JStr ''slow''), b_delayMs := Some (JNum (Fin 250))\<rparr>) initial =
     (initial, Sent \<lparr>status = Fin 400,
                     body = JObj [(''error'', JStr ''mode must be normal, error, or timeout'')]\<rparr>)
   \<and> snd (get_api_behavior (fst (post_api_behavior decimal_engine
            (empty_body\<lparr>b_mode := Some (JStr ''timeout'')\<rparr>) initial))) =
       Sent \<lparr>status = Fin 200, body = behavior_json (DEFAULT_BEHAVIOR\<lparr>mode := ''timeout''\<rparr>)\<rparr>"
  using invalid_mode_rejected
      [of "empty_body\<lparr>b_mode := Some (JStr ''slow''), b_delayMs := Some (JNum (Fin 250))\<rparr>"
          "''slow''" decimal_engine initial]
    invalid_mode_rejected [of empty_body "''timeout''" decimal_engine initial]
  by (simp add: empty_body_def initial_def)

theorem invalid_mode_rejected_counterexample:
  "[] \<notin> set [''normal'', ''error'', ''timeout'']
   \<and> post_api_behavior decimal_engine
       (empty_body\<lparr>b_mode := Some (JStr []), b_delayMs := Some (JNum (Fin 250))\<rparr>) initial =
       (initial\<lparr>behavior := DEFAULT_BEHAVIOR\<lparr>delayMs := Fin 250\<rparr>\<rparr>,
        Sent \<lparr>status = Fin 200,
              body = behavior_json (DEFAULT_BEHAVIOR\<lparr>delayMs := Fin 250\<rparr>)\<rparr>)
   \<and> initial\<lparr>behavior := DEFAULT_BEHAVIOR\<lparr>delayMs := Fin 250\<rparr>\<rparr> \<noteq> initial"
  by (simp add: post_api_behavior_def empty_body_def rejected_def Let_def assign_mode_def
      assign_errorCode_def assign_errorMessage_def assign_delayMs_def initial_def
      DEFAULT_BEHAVIOR_def or_num_def truthy_num_def Math_max_def)

lemma or_num_500: "or_num n (Fin 500) = (if n = NaN \<or> n = Fin 0 then Fin 500 else n)"
  by (simp add: or_num_def truthy_num_def)

lemma clamp_value:
  "Math_max (Fin 0) (or_num n (Fin 0)) = (if n = NaN then Fin 0 else Math_max (Fin 0) n)"
  by (simp add: or_num_def truthy_num_def Math_max_def)

lemma assign_errorCode_value:
  assumes "assign_errorCode e b beh = Some beh'" and "b_errorCode b = Some v" and "v \<noteq> JNull"
  shows "\<exists>n. ToNumber e v = Some n \<and> errorCode beh' = or_num n (Fin 500)"
proof -
  from assms have "map_option (\<lambda>n. beh\<lparr>errorCode := or_num n (Fin 500)\<rparr>) (ToNumber e v) = Some beh'"
    by (simp add: assign_errorCode_def not_nullish_Some)
  then obtain n where "ToNumber e v = Some n" "beh' = beh\<lparr>errorCode := or_num n (Fin 500)\<rparr>"
    by (cases "ToNumber e v") auto
  then show ?thesis by simp
qed

lemma assign_delayMs_value:
  assumes "assign_delayMs e b beh = Some beh'" and "b_delayMs b = Some v" and "v \<noteq> JNull"
  shows "\<exists>n. ToNumber e v = Some n \<and> delayMs beh' = Math_max (Fin 0) (or_num n (Fin 0))"
proof -
  from assms have "map_option (\<lambda>n. beh\<lparr>delayMs := Math_max (Fin 0) (or_num n (Fin 0))\<rparr>) (ToNumber e v) = Some beh'"
    by (simp add: assign_delayMs_def not_nullish_Some)
  then obtain n where "ToNumber e v = Some n" "beh' = beh\<lparr>delayMs := Math_max (Fin 0) (or_num n (Fin 0))\<rparr>"
    by (cases "ToNumber e v") auto
  then show ?thesis by simp
qed

text \<open>
  C3 (as amended). For every set call that passes the validation of mode and runs to its
  end: a provided errorCode (not null) is stored as its conversion to a number when that
  is neither \<open>NaN\<close> nor zero, and as 500 when it is \<open>NaN\<close> or zero; a provided delayMs
  (not null) is stored as the maximum of 0 and its conversion to a number when that is
  not \<open>NaN\<close>, and as 0 when it is.
\<close>

theorem numeric_fields_coerced:
  assumes "accepted (post_api_behavior e b st)"
  shows "(\<forall>v. b_errorCode b = Some v \<and> v \<noteq> JNull \<longrightarrow>
            (\<exists>n. ToNumber e v = Some n
               \<and> errorCode (behavior (fst (post_api_behavior e b st))) =
                   (if n = NaN \<or> n = Fin 0 then Fin 500 else n)))
       \<and> (\<forall>v. b_delayMs b = Some v \<and> v \<noteq> JNull \<longrightarrow>
            (\<exists>n. ToNumber e v = Some n
               \<and> delayMs (behavior (fst (post_api_behavior e b st))) =
                   (if n = NaN then Fin 0 else Math_max (Fin 0) n)))"
proof -
  from accepted_post_api_behavior [OF assms] obtain b2 b3 b4 where
    c: "assign_errorCode e b (assign_mode b (behavior st)) = Some b2"
    and m: "assign_errorMessage e b b2 = Some b3"
    and d: "assign_delayMs e b b3 = Some b4"
    and r: "fst (post_api_behavior e b st) = st\<lparr>behavior := b4\<rparr>"
    by blast
  have keep: "errorCode b4 = errorCode b2"
    using assign_errorMessage_Some [OF m] assign_delayMs_Some [OF d] by simp
  have code: "\<exists>n. ToNumber e v = Some n \<and> errorCode b4 = (if n = NaN \<or> n = Fin 0 then Fin 500 else n)"
    if "b_errorCode b = Some v" "v \<noteq> JNull" for v
    using assign_errorCode_value [OF c that] by (simp only: keep or_num_500)
  have delay: "\<exists>n. ToNumber e v = Some n \<and> delayMs b4 = (if n = NaN then Fin 0 else Math_max (Fin 0) n)"
    if "b_delayMs b = Some v" "v \<noteq> JNull" for v
    using assign_delayMs_value [OF d that] by (simp only: clamp_value)
  have beh: "behavior (fst (post_api_behavior e b st)) = b4"
    by (simp add: r)
  show ?thesis
    unfolding beh using code delay by blast
qed

theorem numeric_fields_coerced_witness:
  "errorCode (behavior (fst (post_api_behavior decimal_engine
      (empty_body\<lparr>b_errorCode := Some (JStr ''503''), b_delayMs := Some (JStr ''soon'')\<rparr>)
      initial))) = Fin 503
   \<and> delayMs (behavior (fst (post_api_behavior decimal_engine
      (empty_body\<lparr>b_errorCode := Some (JStr ''503''), b_delayMs := Some (JStr ''soon'')\<rparr>)
      initial))) = Fin 0"
proof -
  let ?b = "empty_body\<lparr>b_errorCode := Some (JStr ''503''), b_delayMs := Some (JStr ''soon'')\<rparr>"
  have n: "ToNumber decimal_engine (JStr ''503'') = Some (Fin 503)"
    "ToNumber decimal_engine (JStr ''soon'') = Some NaN"
    by (simp_all add: decimal_engine_def decimal_of_string_def)
  have a: "accepted (post_api_behavior decimal_engine ?b initial)"
    by (simp add: accepted_def post_api_behavior_def empty_body_def rejected_def Let_def
        assign_mode_def assign_errorCode_def assign_errorMessage_def assign_delayMs_def n)
  show ?thesis
    using numeric_fields_coerced [OF a] n
    by (simp add: empty_body_def)
qed

theorem numeric_fields_coerced_counterexample:
  "ToNumber decimal_engine (JNum (Fin 0)) = Some (Fin 0)
   \<and> Fin 0 \<noteq> NaN
   \<and> errorCode (behavior (fst (post_api_behavior decimal_engine
        (empty_body\<lparr>b_errorCode := Some (JNum (Fin 0))\<rparr>)
        (initial\<lparr>behavior := DEFAULT_BEHAVIOR\<lparr>errorCode := Fin 503\<rparr>\<rparr>)))) = Fin 500
   \<and> Fin 500 \<noteq> Fin 0"
  by (simp add: post_api_behavior_def empty_body_def rejected_def Let_def assign_mode_def
      assign_errorCode_def assign_errorMessage_def assign_delayMs_def initial_def
      DEFAULT_BEHAVIOR_def or_num_def truthy_num_def)

end
